theory Spec2Isabelle
  imports Main "HOL-Library.Sublist"
begin

section \<open>Go results\<close>

text \<open>
  Go \<^verbatim>\<open>error\<close> values: the error of \<^verbatim>\<open>fasttemplate\<close>, those of the expression
  parser and evaluator, and \<open>ExternalError\<close> for the errors of the libraries that
  are parameters here (ACME manager, \<^verbatim>\<open>x509\<close>, \<^verbatim>\<open>mapstructure\<close>).
\<close>

datatype error =
    CannotFindEndTag string string string
  | UnclosedStringLiteral
  | UnexpectedToken
  | UnexpectedEnd
  | NotABool
  | OutsideFragment
  | ExternalError string

text \<open>
  A Go call either returns or panics. A panic is a value of the model, so that every
  one-result type assertion and every explicit \<^verbatim>\<open>panic(...)\<close> of the source is a
  branch of its own. It carries the message of \<^verbatim>\<open>panic("...")\<close>, the error of
  \<^verbatim>\<open>panic(err)\<close>, or the run-time error of a failed type assertion or index.
\<close>

datatype panic_value = PanicMsg string | PanicErr error | RuntimeError string

datatype 'a go = Return 'a | Panic panic_value

fun is_Panic :: "'a go \<Rightarrow> bool" where
  "is_Panic (Panic v) = True"
| "is_Panic (Return x) = False"

section \<open>The request context\<close>

text \<open>
  \<^verbatim>\<open>echo.Context\<close> is an interface; the record holds the answers of the accessors
  that \<^verbatim>\<open>mapTag\<close> calls: \<^verbatim>\<open>c.Scheme()\<close>, \<^verbatim>\<open>c.Request().Method\<close>,
  \<^verbatim>\<open>c.Request().RequestURI\<close>, \<^verbatim>\<open>c.Request().URL.Path\<close>,
  \<^verbatim>\<open>c.Request().Header.Get\<close>, \<^verbatim>\<open>c.Param\<close>, \<^verbatim>\<open>c.QueryParam\<close> and
  \<^verbatim>\<open>c.FormValue\<close>.
\<close>

record echo_context =
  Scheme :: string
  Method :: string
  RequestURI :: string
  URLPath :: string
  HeaderGet :: "string \<Rightarrow> string"
  Param :: "string \<Rightarrow> string"
  QueryParam :: "string \<Rightarrow> string"
  FormValue :: "string \<Rightarrow> string"

section \<open>fasttemplate\<close>

text \<open>
  \<^verbatim>\<open>plugin.go\<close> builds its templates with \<^verbatim>\<open>fasttemplate.New(t, "${", "}")\<close> and runs
  them with \<^verbatim>\<open>ExecuteFunc\<close>. The library is a dependency of the repository; the
  definitions of this section follow its \<^verbatim>\<open>Template.Reset\<close>, \<^verbatim>\<open>New\<close> and
  \<^verbatim>\<open>ExecuteFunc\<close>.
\<close>

text \<open>\<^verbatim>\<open>bytes.Index(s, sep)\<close>: the first position of \<open>sep\<close> in \<open>s\<close>, \<open>None\<close> for -1.\<close>

fun bytes_Index :: "string \<Rightarrow> string \<Rightarrow> nat option" where
  "bytes_Index [] sep = (if sep = [] then Some 0 else None)"
| "bytes_Index (c # s) sep =
     (if prefix sep (c # s) then Some 0 else map_option Suc (bytes_Index s sep))"

text \<open>
  \<^verbatim>\<open>bytes.Count(s, sep)\<close>: the number of non-overlapping occurrences of \<open>sep\<close>.
  (For an empty \<open>sep\<close> Go counts code points plus one; \<^verbatim>\<open>Reset\<close> never asks.)
\<close>

function bytes_Count :: "string \<Rightarrow> string \<Rightarrow> nat" where
  "bytes_Count s sep =
     (if sep = [] then Suc (length s)
      else if s = [] then 0
      else if prefix sep s then Suc (bytes_Count (drop (length sep) s) sep)
      else bytes_Count (tl s) sep)"
  by pat_completeness auto
termination
  by (relation "measure (\<lambda>(s, sep). length s)") auto

lemma bytes_Index_bound: "bytes_Index s sep = Some n \<Longrightarrow> n + length sep \<le> length s"
proof (induction s arbitrary: n)
  case Nil
  then show ?case by (simp split: if_splits)
next
  case (Cons c s)
  show ?case
  proof (cases "prefix sep (c # s)")
    case True
    then have "length sep \<le> length (c # s)" by (rule prefix_length_le)
    with True Cons.prems show ?thesis by simp
  next
    case False
    with Cons.prems obtain k where "bytes_Index s sep = Some k" "n = Suc k" by auto
    with Cons.IH show ?thesis by fastforce
  qed
qed

record template =
  template_text :: string
  startTag :: string
  endTag :: string
  texts :: "string list"
  tags :: "string list"

text \<open>
  The loop of \<^verbatim>\<open>Reset\<close>: cut the text before the next start tag, then the tag up to
  the next end tag. \<^verbatim>\<open>Reset\<close> has panicked on an empty start tag before it enters
  the loop; the first test repeats that check, which makes the recursion well-founded.
\<close>

function Reset_loop ::
  "string \<Rightarrow> string \<Rightarrow> string \<Rightarrow> string \<Rightarrow> string list \<Rightarrow> string list
    \<Rightarrow> error + (string list \<times> string list)" where
  "Reset_loop tmpl s a b txs tgs =
     (if a = [] then Inr (txs, tgs)
      else case bytes_Index s a of
        None \<Rightarrow> Inr (txs @ [s], tgs)
      | Some n \<Rightarrow>
          (let s1 = drop (n + length a) s in
           case bytes_Index s1 b of
             None \<Rightarrow> Inl (CannotFindEndTag b tmpl s1)
           | Some m \<Rightarrow> Reset_loop tmpl (drop (m + length b) s1) a b (txs @ [take n s]) (tgs @ [take m s1])))"
  by pat_completeness auto

termination
proof (relation "measure (\<lambda>(tmpl, s, a, b, txs, tgs). length s)", goal_cases)
  case 1
  show ?case by simp
next
  case (2 tmpl s a b txs tgs n s1 m)
  from 2 have "n + length a \<le> length s" and "0 < length a"
    using bytes_Index_bound [of s a n] by simp_all
  moreover from 2 have "length s1 = length s - (n + length a)" by simp
  ultimately show ?case by (cases a) simp_all
qed

declare Reset_loop.simps [simp del]
declare bytes_Count.simps [simp del]

text \<open>\<^verbatim>\<open>Template.Reset\<close>, with its two panics and its error for a missing end tag.\<close>

definition Reset :: "string \<Rightarrow> string \<Rightarrow> string \<Rightarrow> (error + template) go" where
  "Reset tmpl a b =
     (let t = \<lparr>template_text = tmpl, startTag = a, endTag = b, texts = [], tags = []\<rparr> in
      if a = [] then Panic (PanicMsg ''startTag cannot be empty'')
      else if b = [] then Panic (PanicMsg ''endTag cannot be empty'')
      else if bytes_Count tmpl a = 0 then Return (Inr t)
      else case Reset_loop tmpl tmpl a b [] [] of
             Inl err \<Rightarrow> Return (Inl err)
           | Inr (txs, tgs) \<Rightarrow> Return (Inr (t\<lparr>texts := txs, tags := tgs\<rparr>)))"

text \<open>\<^verbatim>\<open>fasttemplate.New\<close> panics where \<^verbatim>\<open>NewTemplate\<close> returns an error.\<close>

definition fasttemplate_New :: "string \<Rightarrow> string \<Rightarrow> string \<Rightarrow> template go" where
  "fasttemplate_New tmpl a b =
     (case Reset tmpl a b of
        Panic v \<Rightarrow> Panic v
      | Return (Inl err) \<Rightarrow> Panic (PanicErr err)
      | Return (Inr t) \<Rightarrow> Return t)"

text \<open>
  \<^verbatim>\<open>ExecuteFunc(w, f)\<close>. The writer is the buffer written so far; the tag function
  gets the tag and the buffer and gives the buffer back with its error. The byte counts
  that the Go code adds up are dropped by both callers and are left out. The loop reads
  \<^verbatim>\<open>texts[i]\<close> and \<^verbatim>\<open>tags[i]\<close> for \<open>i < len(texts) - 1\<close>, then writes the last text;
  a missing \<^verbatim>\<open>tags[i]\<close> is Go's index panic.
\<close>

type_synonym tag_func = "string \<Rightarrow> string \<Rightarrow> string \<times> error option"

fun ExecuteFunc_loop :: "tag_func \<Rightarrow> string list \<Rightarrow> string list \<Rightarrow> string \<Rightarrow> (string \<times> error option) go" where
  "ExecuteFunc_loop f [] tgs w = Return (w, None)"
| "ExecuteFunc_loop f [tx] tgs w = Return (w @ tx, None)"
| "ExecuteFunc_loop f (tx # tx' # txs) [] w = Panic (RuntimeError ''index out of range'')"
| "ExecuteFunc_loop f (tx # tx' # txs) (tg # tgs) w =
     (case f tg (w @ tx) of
        (w', Some err) \<Rightarrow> Return (w', Some err)
      | (w', None) \<Rightarrow> ExecuteFunc_loop f (tx' # txs) tgs w')"

definition ExecuteFunc :: "template \<Rightarrow> tag_func \<Rightarrow> string \<Rightarrow> (string \<times> error option) go" where
  "ExecuteFunc t f w =
     (if texts t = [] then Return (w @ template_text t, None)
      else ExecuteFunc_loop f (texts t) (tags t) w)"

section \<open>plugin.go: templates and expressions\<close>

text \<open>
  \<^verbatim>\<open>strings.HasPrefix(t, p)\<close> is \<^const>\<open>prefix\<close>; \<^verbatim>\<open>t[k:]\<close> is \<^term>\<open>drop k t\<close>, in
  range wherever the prefix test has passed.
\<close>

definition mapTag :: "string \<Rightarrow> echo_context \<Rightarrow> string \<Rightarrow> string" where
  "mapTag b c t =
     (if t = ''scheme'' then b @ Scheme c
      else if t = ''method'' then b @ Method c
      else if t = ''uri'' then b @ RequestURI c
      else if t = ''path'' then b @ URLPath c
      else if prefix ''header:'' t then b @ HeaderGet c (drop 7 t)
      else if prefix ''path:'' t then b @ Param c (drop 5 t)
      else if prefix ''query:'' t then b @ QueryParam c (drop 6 t)
      else if prefix ''form:'' t then b @ FormValue c (drop 5 t)
      else b)"

definition NewTemplate :: "string \<Rightarrow> template go" where
  "NewTemplate t = fasttemplate_New t ''${'' ''}''"

text \<open>
  \<^verbatim>\<open>Template.Execute\<close>: the pooled buffer is reset, so the writer starts empty; the
  callback writes the resolved tag and returns \<^verbatim>\<open>0, nil\<close>.
\<close>

definition Execute :: "template \<Rightarrow> echo_context \<Rightarrow> (string \<times> error option) go" where
  "Execute t c = ExecuteFunc t (\<lambda>tag buf. (mapTag buf c tag, None)) []"

section \<open>govaluate\<close>

text \<open>
  \<^verbatim>\<open>Expression.Evaluate\<close> hands the rendered text to
  \<^verbatim>\<open>govaluate.NewEvaluableExpression\<close> and evaluates the result with no parameters.
  The library is a dependency of the repository. This section models the part of it that
  skip conditions over quoted placeholders reach: string and boolean literals, the
  comparators \<^verbatim>\<open>==\<close> and \<^verbatim>\<open>!=\<close>, and the logical operators \<^verbatim>\<open>&&\<close> and
  \<^verbatim>\<open>||\<close>, where \<^verbatim>\<open>&&\<close> binds tighter than \<^verbatim>\<open>||\<close> and comparators bind tighter
  than both. Every other input (numbers, variables, parentheses, other operators, a
  string literal that could be read as a date, a chain of comparators, the empty
  expression) gives \<^const>\<open>OutsideFragment\<close>: the model says nothing about it.
\<close>

datatype comparator = EQ | NEQ

datatype logicalop = AND | OR

datatype token =
    STRING string
  | BOOLEAN bool
  | COMPARATOR comparator
  | LOGICALOP logicalop

datatype gvalue = GString string | GBool bool

datatype stage =
    Literal gvalue
  | Compare comparator stage stage
  | Logical logicalop stage stage

definition sq :: string where
  "sq = [CHR 0x27]"

definition isQuote :: "char \<Rightarrow> bool" where
  "isQuote c \<longleftrightarrow> c = CHR 0x27 \<or> c = CHR 0x22"

definition isSpace :: "char \<Rightarrow> bool" where
  "isSpace c \<longleftrightarrow> c \<in> set [CHR '' '', CHR 0x09, CHR 0x0A, CHR 0x0B, CHR 0x0C, CHR 0x0D]"

definition isDigit :: "char \<Rightarrow> bool" where
  "isDigit c \<longleftrightarrow> c \<in> set ''0123456789''"

definition isLetter :: "char \<Rightarrow> bool" where
  "isLetter c \<longleftrightarrow>
     c \<in> set ''abcdefghijklmnopqrstuvwxyz'' \<or> c \<in> set ''ABCDEFGHIJKLMNOPQRSTUVWXYZ''"

text \<open>
  The characters that the lexer reads on into one operator symbol: it stops at white
  space, at a letter or digit, at a quote and at a bracket.
\<close>

definition isSymbolChar :: "char \<Rightarrow> bool" where
  "isSymbolChar c \<longleftrightarrow>
     \<not> (isSpace c \<or> isDigit c \<or> isLetter c \<or> isQuote c
        \<or> c \<in> set [CHR ''('', CHR '')'', CHR ''['', CHR '']''])"

text \<open>
  The body of a string literal, after its opening quote: a backslash takes the next
  character as it is, either quote character closes the literal, and the end of the
  input leaves it unclosed (\<open>None\<close>). The result is the literal's value and the input
  after the closing quote.
\<close>

fun readLiteral :: "string \<Rightarrow> string \<Rightarrow> (string \<times> string) option" where
  "readLiteral acc [] = None"
| "readLiteral acc [c] = (if c = CHR 0x5C then None else if isQuote c then Some (acc, []) else None)"
| "readLiteral acc (c # d # cs) =
     (if c = CHR 0x5C then readLiteral (acc @ [d]) cs
      else if isQuote c then Some (acc, d # cs)
      else readLiteral (acc @ [c]) (d # cs))"

lemma readLiteral_shorter: "readLiteral acc s = Some (v, rest) \<Longrightarrow> length rest < length s"
  by (induction acc s rule: readLiteral.induct) (auto split: if_splits)

definition symbolToken :: "string \<Rightarrow> error + token" where
  "symbolToken w =
     (if w = ''=='' then Inr (COMPARATOR EQ)
      else if w = ''!='' then Inr (COMPARATOR NEQ)
      else if w = ''&&'' then Inr (LOGICALOP AND)
      else if w = ''||'' then Inr (LOGICALOP OR)
      else Inl OutsideFragment)"

definition wordToken :: "string \<Rightarrow> error + token" where
  "wordToken w =
     (if w = ''true'' then Inr (BOOLEAN True)
      else if w = ''false'' then Inr (BOOLEAN False)
      else Inl OutsideFragment)"

definition consToken :: "error + token \<Rightarrow> error + token list \<Rightarrow> error + token list" where
  "consToken t ts =
     (case t of Inl err \<Rightarrow> Inl err
      | Inr tok \<Rightarrow> (case ts of Inl err \<Rightarrow> Inl err | Inr toks \<Rightarrow> Inr (tok # toks)))"

function parseTokens :: "string \<Rightarrow> error + token list" where
  "parseTokens [] = Inr []"
| "parseTokens (c # cs) =
     (if isSpace c then parseTokens cs
      else if isQuote c then
        (case readLiteral [] cs of
           None \<Rightarrow> Inl UnclosedStringLiteral
         | Some (v, rest) \<Rightarrow>
             if \<exists>d \<in> set v. isDigit d then Inl OutsideFragment
             else consToken (Inr (STRING v)) (parseTokens rest))
      else if isLetter c then
        consToken (wordToken (c # takeWhile (\<lambda>d. isLetter d \<or> isDigit d \<or> d = CHR ''_'') cs))
          (parseTokens (dropWhile (\<lambda>d. isLetter d \<or> isDigit d \<or> d = CHR ''_'') cs))
      else if isSymbolChar c \<and> c \<noteq> CHR 0x5C \<and> c \<noteq> CHR '','' then
        consToken (symbolToken (c # takeWhile (\<lambda>d. isSymbolChar d \<and> d \<noteq> CHR 0x5C) cs))
          (parseTokens (dropWhile (\<lambda>d. isSymbolChar d \<and> d \<noteq> CHR 0x5C) cs))
      else Inl OutsideFragment)"
  by pat_completeness auto
termination
proof (relation "measure length", goal_cases)
  case (3 c cs x v rest)
  then show ?case using readLiteral_shorter [of "[]" cs v rest] by simp
qed (simp_all add: length_dropWhile_le less_Suc_eq_le)

declare parseTokens.simps [simp del]

text \<open>
  Planning. Without parentheses the precedence levels are nested splits of the token
  list: at \<^verbatim>\<open>||\<close>, then at \<^verbatim>\<open>&&\<close>, then one comparison.
\<close>

fun splitAt :: "token \<Rightarrow> token list \<Rightarrow> token list list" where
  "splitAt sep [] = [[]]"
| "splitAt sep (t # ts) =
     (case splitAt sep ts of
        [] \<Rightarrow> []
      | g # gs \<Rightarrow> if t = sep then [] # g # gs else (t # g) # gs)"

fun planValue :: "token \<Rightarrow> error + stage" where
  "planValue (STRING s) = Inr (Literal (GString s))"
| "planValue (BOOLEAN b) = Inr (Literal (GBool b))"
| "planValue t = Inl UnexpectedToken"

fun planComparator :: "token list \<Rightarrow> error + stage" where
  "planComparator [] = Inl UnexpectedEnd"
| "planComparator [t] = planValue t"
| "planComparator [l, COMPARATOR cmp, r] =
     (case planValue l of Inl err \<Rightarrow> Inl err
      | Inr ls \<Rightarrow> (case planValue r of Inl err \<Rightarrow> Inl err | Inr rs \<Rightarrow> Inr (Compare cmp ls rs)))"
| "planComparator [l, t] = Inl UnexpectedEnd"
| "planComparator [l, t, r] = Inl UnexpectedToken"
| "planComparator (l # COMPARATOR cmp # r # COMPARATOR cmp' # ts) = Inl OutsideFragment"
| "planComparator (l # t # r # t' # ts) = Inl UnexpectedToken"

fun planChain :: "logicalop \<Rightarrow> stage \<Rightarrow> (error + stage) list \<Rightarrow> error + stage" where
  "planChain lop l [] = Inr l"
| "planChain lop l (Inl err # rs) = Inl err"
| "planChain lop l (Inr r # rs) = planChain lop (Logical lop l r) rs"

definition planLevel :: "logicalop \<Rightarrow> (token list \<Rightarrow> error + stage) \<Rightarrow> token list \<Rightarrow> error + stage" where
  "planLevel lop next ts =
     (case map next (splitAt (LOGICALOP lop) ts) of
        [] \<Rightarrow> Inl UnexpectedEnd
      | Inl err # rs \<Rightarrow> Inl err
      | Inr l # rs \<Rightarrow> planChain lop l rs)"

definition planLogicalAnd :: "token list \<Rightarrow> error + stage" where
  "planLogicalAnd = planLevel AND planComparator"

definition planLogicalOr :: "token list \<Rightarrow> error + stage" where
  "planLogicalOr = planLevel OR planLogicalAnd"

definition NewEvaluableExpression :: "string \<Rightarrow> error + stage" where
  "NewEvaluableExpression expression =
     (case parseTokens expression of
        Inl err \<Rightarrow> Inl err
      | Inr [] \<Rightarrow> Inl OutsideFragment
      | Inr ts \<Rightarrow> planLogicalOr ts)"

text \<open>
  Evaluation: the left operand first; \<^verbatim>\<open>||\<close> and \<^verbatim>\<open>&&\<close> stop on a deciding left
  operand, and otherwise want booleans on both sides; \<^verbatim>\<open>==\<close> compares values of any
  two types.
\<close>

fun evaluateStage :: "stage \<Rightarrow> error + gvalue" where
  "evaluateStage (Literal v) = Inr v"
| "evaluateStage (Compare cmp l r) =
     (case evaluateStage l of Inl err \<Rightarrow> Inl err
      | Inr lv \<Rightarrow>
         (case evaluateStage r of Inl err \<Rightarrow> Inl err
          | Inr rv \<Rightarrow> Inr (GBool (if cmp = EQ then lv = rv else lv \<noteq> rv))))"
| "evaluateStage (Logical lop l r) =
     (case evaluateStage l of Inl err \<Rightarrow> Inl err
      | Inr lv \<Rightarrow>
         if lop = AND \<and> lv = GBool False then Inr (GBool False)
         else if lop = OR \<and> lv = GBool True then Inr (GBool True)
         else (case evaluateStage r of Inl err \<Rightarrow> Inl err
               | Inr rv \<Rightarrow>
                  (case (lv, rv) of
                     (GBool a, GBool b) \<Rightarrow> Inr (GBool (if lop = AND then a \<and> b else a \<or> b))
                   | _ \<Rightarrow> Inl NotABool)))"

text \<open>
  \<^verbatim>\<open>Expression.Evaluate\<close>: the same rendering as \<^const>\<open>Execute\<close>, with a single
  quote written before and after each resolved tag; then parse and evaluate.
\<close>

definition NewExpression :: "string \<Rightarrow> template go" where
  "NewExpression t = fasttemplate_New t ''${'' ''}''"

definition quoteTag :: "echo_context \<Rightarrow> tag_func" where
  "quoteTag c = (\<lambda>tag buf. (mapTag (buf @ sq) c tag @ sq, None))"

definition Evaluate :: "template \<Rightarrow> echo_context \<Rightarrow> (error + gvalue) go" where
  "Evaluate e c =
     (case ExecuteFunc e (quoteTag c) [] of
        Panic v \<Rightarrow> Panic v
      | Return (buf, Some err) \<Rightarrow> Return (Inl err)
      | Return (buf, None) \<Rightarrow>
          (case NewEvaluableExpression buf of
             Inl err \<Rightarrow> Return (Inl err)
           | Inr expr \<Rightarrow> Return (evaluateStage expr)))"

section \<open>plugin.go: decoding a plugin\<close>

text \<open>
  A \<^verbatim>\<open>RawPlugin\<close> is a \<^verbatim>\<open>map[string]interface{}\<close>. The dynamic types that the
  type assertions of \<^verbatim>\<open>Name\<close> and \<^verbatim>\<open>Order\<close> tell apart are kept; indexing the
  map with an absent key gives the nil interface.
\<close>

datatype iface = INil | IString string | IInt int | IBool bool | IOther

type_synonym RawPlugin = "string \<rightharpoonup> iface"

definition index_map :: "RawPlugin \<Rightarrow> string \<Rightarrow> iface" where
  "index_map rp k = (case rp k of None \<Rightarrow> INil | Some v \<Rightarrow> v)"

text \<open>\<^verbatim>\<open>rp["name"].(string)\<close>: the one-result type assertion panics on any other type.\<close>

definition RawPlugin_Name :: "RawPlugin \<Rightarrow> string go" where
  "RawPlugin_Name rp =
     (case index_map rp ''name'' of
        IString s \<Rightarrow> Return s
      | _ \<Rightarrow> Panic (RuntimeError ''interface conversion: interface {} is not string''))"

definition RawPlugin_Order :: "RawPlugin \<Rightarrow> int go" where
  "RawPlugin_Order rp =
     (case index_map rp ''order'' of
        IInt n \<Rightarrow> Return n
      | _ \<Rightarrow> Panic (RuntimeError ''interface conversion: interface {} is not int''))"

text \<open>
  \<^verbatim>\<open>Base\<close>, without its handles (\<^verbatim>\<open>mutex\<close>, \<^verbatim>\<open>Middleware\<close>, \<^verbatim>\<open>Echo\<close>,
  \<^verbatim>\<open>Logger\<close>), which no claim reads.
\<close>

record Base =
  name :: string
  order :: int
  Skip :: string

text \<open>
  One constructor for each plugin type of \<^verbatim>\<open>DefaultLookup\<close>. The fields of the
  plugin types are declared in other files of the package; \<^verbatim>\<open>config\<close> stands for
  them, as the record that the decoder filled them from.
\<close>

datatype kind =
    BodyLimit | Logger | Redirect | HTTPSRedirect | HTTPSWWWRedirect | HTTPSNonWWWRedirect
  | WWWRedirect | NonWWWRedirect | AddTrailingSlash | RemoveTrailingSlash | Rewrite | Secure
  | CORS | Gzip | Header | Proxy | Static | File

record plugin =
  kind :: kind
  base :: Base
  config :: "(string \<times> iface) list"

definition DefaultLookup :: "Base \<Rightarrow> plugin option" where
  "DefaultLookup b =
     (let p = (\<lambda>k. Some \<lparr>kind = k, base = b, config = []\<rparr>) in
      if name b = ''body-limit'' then p BodyLimit
      else if name b = ''logger'' then p Logger
      else if name b = ''redirect'' then p Redirect
      else if name b = ''https-redirect'' then p HTTPSRedirect
      else if name b = ''https-www-redirect'' then p HTTPSWWWRedirect
      else if name b = ''https-non-www-redirect'' then p HTTPSNonWWWRedirect
      else if name b = ''www-redirect'' then p WWWRedirect
      else if name b = ''non-www-redirect'' then p NonWWWRedirect
      else if name b = ''add-trailing-slash'' then p AddTrailingSlash
      else if name b = ''remove-trailing-slash'' then p RemoveTrailingSlash
      else if name b = ''rewrite'' then p Rewrite
      else if name b = ''secure'' then p Secure
      else if name b = ''cors'' then p CORS
      else if name b = ''gzip'' then p Gzip
      else if name b = ''header'' then p Header
      else if name b = ''proxy'' then p Proxy
      else if name b = ''static'' then p Static
      else if name b = ''file'' then p File
      else None)"

text \<open>
  \<^verbatim>\<open>Decode\<close>. \<^verbatim>\<open>Lookup\<close> is a package variable that embedding code may replace,
  and \<^verbatim>\<open>mapstructure\<close> is a dependency: both are parameters. \<^verbatim>\<open>r.Name()\<close> is
  evaluated first, then \<^verbatim>\<open>r.Order()\<close> inside the \<^verbatim>\<open>Base\<close> literal, then the
  lookup, then the decoder. The function has one result, the plugin; each of its
  failures is a panic.
\<close>

definition Decode ::
  "(Base \<Rightarrow> plugin option) \<Rightarrow> (plugin \<Rightarrow> RawPlugin \<Rightarrow> error + plugin) \<Rightarrow> RawPlugin \<Rightarrow> plugin go" where
  "Decode Lookup mapstructure_Decode r =
     (case RawPlugin_Name r of
        Panic v \<Rightarrow> Panic v
      | Return nm \<Rightarrow>
         (case RawPlugin_Order r of
            Panic v \<Rightarrow> Panic v
          | Return ord \<Rightarrow>
             (case Lookup \<lparr>name = nm, order = ord, Skip = ''false''\<rparr> of
                None \<Rightarrow> Panic (PanicMsg (''plugin='' @ nm @ '' not found''))
              | Some p \<Rightarrow>
                 (case mapstructure_Decode p r of
                    Inl err \<Rightarrow> Panic (PanicErr err)
                  | Inr p' \<Rightarrow> Return p'))))"

section \<open>http.go: certificate selection\<close>

type_synonym bytes = string

text \<open>\<^verbatim>\<open>tls.Certificate\<close>: the chain of DER certificates and the private key.\<close>

record certificate =
  Certificate :: "bytes list"
  PrivateKey :: bytes

text \<open>
  The configuration that the \<^verbatim>\<open>GetCertificate\<close> closure reads:
  \<^verbatim>\<open>s.TLSConfig.NameToCertificate\<close>, \<^verbatim>\<open>a.TLS.Auto\<close> and \<^verbatim>\<open>a.TLS.KeyPinning\<close>.
\<close>

record tls_config =
  NameToCertificate :: "string \<rightharpoonup> certificate"
  Auto :: bool
  KeyPinning :: bool

text \<open>
  The standard-library calls of the pinning block, as parameters:
  \<^verbatim>\<open>x509.ParseCertificate\<close> followed by \<^verbatim>\<open>.PublicKey\<close>,
  \<^verbatim>\<open>x509.MarshalPKIXPublicKey\<close>, \<^verbatim>\<open>sha256.Sum256\<close> and
  \<^verbatim>\<open>base64.StdEncoding.EncodeToString\<close>.
\<close>

record 'k crypto =
  ParseCertificate :: "bytes \<Rightarrow> error + 'k"
  MarshalPKIXPublicKey :: "'k \<Rightarrow> error + bytes"
  Sum256 :: "bytes \<Rightarrow> bytes"
  EncodeToString :: "bytes \<Rightarrow> string"

text \<open>
  The state that a handshake can change: the pin cache \<^verbatim>\<open>a.TLS.pins.pins\<close>, from
  host name to the set of key hashes (a \<^verbatim>\<open>map[string]struct{}\<close>), and the state of
  the ACME manager, whose \<^verbatim>\<open>GetCertificate\<close> is a parameter. Of the
  \<^verbatim>\<open>ClientHelloInfo\<close> the closure reads \<^verbatim>\<open>ServerName\<close> only; the manager gets the
  name, and whatever else its answer depends on is part of its state.
\<close>

record 'm server =
  pins :: "string \<rightharpoonup> string set"
  acme :: 'm

type_synonym 'm manager = "string \<Rightarrow> 'm \<Rightarrow> (error + certificate) \<times> 'm"

text \<open>The loop over \<^verbatim>\<open>cert.Certificate\<close>; it stops at the first error.\<close>

fun hashChain :: "'k crypto \<Rightarrow> bytes list \<Rightarrow> string set \<Rightarrow> string set \<times> error option" where
  "hashChain lib [] m = (m, None)"
| "hashChain lib (crtDer # rest) m =
     (case ParseCertificate lib crtDer of
        Inl err \<Rightarrow> (m, Some err)
      | Inr publicKey \<Rightarrow>
         (case MarshalPKIXPublicKey lib publicKey of
            Inl err \<Rightarrow> (m, Some err)
          | Inr pubKeyDer \<Rightarrow>
              hashChain lib rest (insert (EncodeToString lib (Sum256 lib pubKeyDer)) m)))"

text \<open>
  The closure. Its result is the Go pair of a certificate pointer and an error, each of
  which may be nil. \<^verbatim>\<open>hostPins\<close> is a pointer: when the host has an entry already,
  the loop writes into the cached set itself, so the hashes added before an error stay;
  a set made by \<^verbatim>\<open>new(pins)\<close> reaches the cache only by the final assignment.
\<close>

definition GetCertificate ::
  "tls_config \<Rightarrow> 'k crypto \<Rightarrow> 'm manager \<Rightarrow> string \<Rightarrow> 'm server
    \<Rightarrow> (certificate option \<times> error option) \<times> 'm server" where
  "GetCertificate cfg lib AutoTLSManager_GetCertificate serverName st =
     (case NameToCertificate cfg serverName of
        Some cert \<Rightarrow> ((Some cert, None), st)
      | None \<Rightarrow>
         if Auto cfg then
           (case AutoTLSManager_GetCertificate serverName (acme st) of
              (Inl err, acme') \<Rightarrow> ((None, Some err), st\<lparr>acme := acme'\<rparr>)
            | (Inr cert, acme') \<Rightarrow>
                if KeyPinning cfg then
                  (case hashChain lib (Certificate cert)
                          (case pins st serverName of None \<Rightarrow> {} | Some m \<Rightarrow> m) of
                     (m', Some err) \<Rightarrow>
                       ((None, Some err),
                        st\<lparr>acme := acme',
                           pins := (case pins st serverName of
                                      None \<Rightarrow> pins st
                                    | Some m \<Rightarrow> (pins st)(serverName \<mapsto> m'))\<rparr>)
                   | (m', None) \<Rightarrow>
                       ((Some cert, None), st\<lparr>acme := acme', pins := (pins st)(serverName \<mapsto> m')\<rparr>))
                else ((Some cert, None), st\<lparr>acme := acme'\<rparr>))
         else ((None, None), st))"

section \<open>http.go: the pinning block, step by step\<close>

text \<open>
  The pinning block of the closure as the sequence of its accesses to shared memory, one
  step each, for handshakes that run at the same time:
  \<^item> \<open>AtRead\<close>: \<^verbatim>\<open>hostPins := pins.pins[serverName]\<close>, and \<^verbatim>\<open>new(pins)\<close> with an
    empty map when that is nil;
  \<^item> \<open>AtInsert\<close>: \<^verbatim>\<open>hostPins.m[keyHashBase] = struct{}{}\<close>, once for each hash of the
    chain (the hashes still to insert are in the program counter);
  \<^item> \<open>AtLock\<close>: \<^verbatim>\<open>pins.mutex.Lock()\<close>, which waits while another handshake holds
    the mutex;
  \<^item> \<open>AtStore\<close>: \<^verbatim>\<open>pins.pins[serverName] = hostPins\<close>;
  \<^item> \<open>AtUnlock\<close>: the deferred \<^verbatim>\<open>pins.mutex.Unlock()\<close>, on return.
  \<^verbatim>\<open>hostPins\<close> is a pointer, so the cache maps a host to an address and the heap maps an
  address to the set of hashes.
\<close>

datatype pc = AtRead | AtInsert "string list" | AtLock | AtStore | AtUnlock | Done

record handshake =
  at :: pc
  host :: string
  chainHashes :: "string list"
  hostPins :: nat

record pinning =
  pinsMap :: "string \<rightharpoonup> nat"
  heap :: "nat \<rightharpoonup> string set"
  nextAddr :: nat
  mutex :: "nat option"

text \<open>One step of handshake \<open>tid\<close>; \<open>None\<close> when it cannot move (waiting or done).\<close>

definition stepHandshake :: "nat \<Rightarrow> pinning \<Rightarrow> handshake \<Rightarrow> (pinning \<times> handshake) option" where
  "stepHandshake tid sh h =
     (case at h of
        AtRead \<Rightarrow>
          (case pinsMap sh (host h) of
             Some p \<Rightarrow> Some (sh, h\<lparr>at := AtInsert (chainHashes h), hostPins := p\<rparr>)
           | None \<Rightarrow>
               Some (sh\<lparr>heap := (heap sh)(nextAddr sh \<mapsto> {}), nextAddr := Suc (nextAddr sh)\<rparr>,
                     h\<lparr>at := AtInsert (chainHashes h), hostPins := nextAddr sh\<rparr>))
      | AtInsert [] \<Rightarrow> Some (sh, h\<lparr>at := AtLock\<rparr>)
      | AtInsert (k # ks) \<Rightarrow>
          Some (sh\<lparr>heap := (heap sh)(hostPins h \<mapsto>
                         insert k (case heap sh (hostPins h) of None \<Rightarrow> {} | Some m \<Rightarrow> m))\<rparr>,
                h\<lparr>at := AtInsert ks\<rparr>)
      | AtLock \<Rightarrow>
          (case mutex sh of
             None \<Rightarrow> Some (sh\<lparr>mutex := Some tid\<rparr>, h\<lparr>at := AtStore\<rparr>)
           | Some holder \<Rightarrow> None)
      | AtStore \<Rightarrow> Some (sh\<lparr>pinsMap := (pinsMap sh)(host h \<mapsto> hostPins h)\<rparr>, h\<lparr>at := AtUnlock\<rparr>)
      | AtUnlock \<Rightarrow> Some (sh\<lparr>mutex := None\<rparr>, h\<lparr>at := Done\<rparr>)
      | Done \<Rightarrow> None)"

text \<open>
  A schedule names the handshake that moves next; a handshake that cannot move, or is
  not there, leaves the state as it is.
\<close>

fun run :: "nat list \<Rightarrow> pinning \<times> handshake list \<Rightarrow> pinning \<times> handshake list" where
  "run [] s = s"
| "run (tid # sched) (sh, hs) =
     (if tid < length hs then
        (case stepHandshake tid sh (hs ! tid) of
           None \<Rightarrow> run sched (sh, hs)
         | Some (sh', h') \<Rightarrow> run sched (sh', hs[tid := h']))
      else run sched (sh, hs))"

text \<open>The steps that read or write the pin cache or a set of it.\<close>

fun accessesPins :: "pc \<Rightarrow> bool" where
  "accessesPins AtRead = True"
| "accessesPins (AtInsert (k # ks)) = True"
| "accessesPins AtStore = True"
| "accessesPins other = False"

text \<open>The hashes that the cache holds for a host.\<close>

definition cachedPins :: "pinning \<Rightarrow> string \<Rightarrow> string set" where
  "cachedPins sh hostName =
     (case pinsMap sh hostName of
        None \<Rightarrow> {}
      | Some p \<Rightarrow> (case heap sh p of None \<Rightarrow> {} | Some m \<Rightarrow> m))"

definition newHandshake :: "string \<Rightarrow> string list \<Rightarrow> handshake" where
  "newHandshake hostName hashes = \<lparr>at = AtRead, host = hostName, chainHashes = hashes, hostPins = 0\<rparr>"

definition newPinning :: pinning where
  "newPinning = \<lparr>pinsMap = Map.empty, heap = Map.empty, nextAddr = 0, mutex = None\<rparr>"

section \<open>Notions of the specification\<close>

text \<open>
  A text has a placeholder when it has a start tag \<^verbatim>\<open>${\<close> with an end tag \<^verbatim>\<open>}\<close>
  somewhere after it.
\<close>

definition has_placeholder :: "string \<Rightarrow> bool" where
  "has_placeholder s \<longleftrightarrow> (\<exists>a tag b. s = a @ ''${'' @ tag @ ''}'' @ b)"

text \<open>A request context to run examples on.\<close>

definition ctx0 :: echo_context where
  "ctx0 = \<lparr>Scheme = ''https'', Method = ''GET'', RequestURI = ''/a'', URLPath = ''/a'',
     HeaderGet = (\<lambda>k. []), Param = (\<lambda>k. []), QueryParam = (\<lambda>k. []), FormValue = (\<lambda>k. [])\<rparr>"

text \<open>
  The pin of one certificate of a chain: the base64 text of the SHA-256 hash of its
  DER-encoded public key, when the key can be extracted.
\<close>

definition keyHash :: "'k crypto \<Rightarrow> bytes \<Rightarrow> string option" where
  "keyHash lib crtDer =
     (case ParseCertificate lib crtDer of
        Inl err \<Rightarrow> None
      | Inr publicKey \<Rightarrow>
         (case MarshalPKIXPublicKey lib publicKey of
            Inl err \<Rightarrow> None
          | Inr pubKeyDer \<Rightarrow> Some (EncodeToString lib (Sum256 lib pubKeyDer))))"

text \<open>
  Examples: a library whose public key is the certificate's text and whose hash marks its
  argument; a manager that serves one certificate and counts its calls; two
  configurations with automatic provisioning, one of them with a manual certificate for
  \<^verbatim>\<open>example.com\<close>.
\<close>

definition lib0 :: "bytes crypto" where
  "lib0 = \<lparr>ParseCertificate = (\<lambda>der. if der = [] then Inl (ExternalError ''x509: malformed certificate'') else Inr der),
            MarshalPKIXPublicKey = (\<lambda>k. Inr k),
            Sum256 = (\<lambda>b. ''#'' @ b),
            EncodeToString = (\<lambda>b. b)\<rparr>"

definition acmeCert :: certificate where
  "acmeCert = \<lparr>Certificate = [''leaf'', ''intermediate''], PrivateKey = ''acme-key''\<rparr>"

definition manualCert :: certificate where
  "manualCert = \<lparr>Certificate = [''manual''], PrivateKey = ''manual-key''\<rparr>"

definition mgr0 :: "nat manager" where
  "mgr0 serverName calls =
     (if serverName = ''example.com'' then (Inr acmeCert, Suc calls)
      else (Inl (ExternalError ''acme/autocert: host not configured''), Suc calls))"

definition cfgAuto :: tls_config where
  "cfgAuto = \<lparr>NameToCertificate = Map.empty, Auto = True, KeyPinning = True\<rparr>"

definition cfgManual :: tls_config where
  "cfgManual = \<lparr>NameToCertificate = [''example.com'' \<mapsto> manualCert], Auto = True, KeyPinning = True\<rparr>"

definition st0 :: "nat server" where
  "st0 = \<lparr>pins = Map.empty, acme = 0\<rparr>"

definition st1 :: "nat server" where
  "st1 = \<lparr>pins = [''example.com'' \<mapsto> {''#leaf'', ''#intermediate''}], acme = 1\<rparr>"

definition roleExpr :: string where
  "roleExpr = ''${header:X-Role} == 'admin'' @ sq"

definition ctxInject :: echo_context where
  "ctxInject = ctx0\<lparr>HeaderGet := (\<lambda>k. if k = ''X-Role'' then ''x' == 'x' || 'y'' else [])\<rparr>"

definition ctxGuest :: echo_context where
  "ctxGuest = ctx0\<lparr>HeaderGet := (\<lambda>k. if k = ''X-Role'' then ''guest'' else [])\<rparr>"

definition methodExpr :: template where
  "methodExpr = \<lparr>template_text = ''${method} == 'GET'' @ sq, startTag = ''${'', endTag = ''}'',
       texts = [[], '' == 'GET'' @ sq], tags = [''method'']\<rparr>"

definition bogusPlugin :: RawPlugin where
  "bogusPlugin = map_of [(''name'', IString ''bogus''), (''order'', IInt 1)]"

definition roleTemplate :: template where
  "roleTemplate = \<lparr>template_text = roleExpr, startTag = ''${'', endTag = ''}'',
       texts = [[], '' == 'admin'' @ sq], tags = [''header:X-Role'']\<rparr>"

section \<open>Templates: facts about the parser\<close>

lemma bytes_Index_decomp:
  "bytes_Index s sep = Some n \<Longrightarrow> s = take n s @ sep @ drop (n + length sep) s"
proof (induction s arbitrary: n)
  case Nil
  then show ?case by (simp split: if_splits)
next
  case (Cons c s)
  show ?case
  proof (cases "prefix sep (c # s)")
    case True
    with Cons.prems have "n = 0" by simp
    moreover from True obtain r where "c # s = sep @ r" by (auto simp: prefix_def)
    ultimately show ?thesis by simp
  next
    case False
    with Cons.prems obtain k where k: "bytes_Index s sep = Some k" "n = Suc k" by auto
    from Cons.IH [OF k(1)] k(2) show ?thesis by simp
  qed
qed

lemma bytes_Count_zero_iff:
  "sep \<noteq> [] \<Longrightarrow> bytes_Count s sep = 0 \<longleftrightarrow> bytes_Index s sep = None"
proof (induction s sep rule: bytes_Count.induct)
  case (1 s sep)
  show ?case
  proof (cases s)
    case Nil
    with 1 show ?thesis by (simp add: bytes_Count.simps)
  next
    case (Cons c r)
    show ?thesis
    proof (cases "prefix sep s")
      case True
      with Cons 1 have "bytes_Count s sep = Suc (bytes_Count (drop (length sep) s) sep)"
        by (subst bytes_Count.simps) simp
      with Cons True show ?thesis by simp
    next
      case False
      with Cons 1 have "bytes_Count s sep = bytes_Count (tl s) sep"
        by (subst bytes_Count.simps) simp
      with Cons False 1 show ?thesis by simp
    qed
  qed
qed

lemma Reset_loop_lengths:
  "Reset_loop tmpl s a b txs tgs = Inr (txs', tgs') \<Longrightarrow> a \<noteq> [] \<Longrightarrow> length txs = length tgs
    \<Longrightarrow> length txs' = Suc (length tgs')"
proof (induction tmpl s a b txs tgs rule: Reset_loop.induct)
  case (1 tmpl s a b txs tgs)
  from "1.prems" show ?case
    by (subst (asm) Reset_loop.simps) (auto split: option.splits simp: Let_def intro: "1.IH")
qed

lemma ExecuteFunc_loop_no_error:
  "length txs = Suc (length tgs) \<Longrightarrow> \<forall>tag w. snd (f tag w) = None
    \<Longrightarrow> \<exists>s. ExecuteFunc_loop f txs tgs w = Return (s, None)"
proof (induction f txs tgs w rule: ExecuteFunc_loop.induct)
  case (4 f tx tx' txs tg tgs w)
  obtain w' e where fw: "f tg (w @ tx) = (w', e)" by (cases "f tg (w @ tx)")
  with "4.prems"(2) have "e = None" by (metis snd_conv)
  with fw 4 show ?case by simp
qed simp_all

lemma Reset_no_start_tag:
  assumes "bytes_Index s ''${'' = None"
  shows "NewTemplate s = Return \<lparr>template_text = s, startTag = ''${'', endTag = ''}'', texts = [], tags = []\<rparr>"
  using assms bytes_Count_zero_iff [of "''${''" s]
  by (simp add: NewTemplate_def fasttemplate_New_def Reset_def)

lemma NewTemplate_lengths:
  assumes "NewTemplate s = Return t"
  shows "template_text t = s \<and> (texts t = [] \<or> length (texts t) = Suc (length (tags t)))"
  using assms Reset_loop_lengths [of s s "''${''" "''}''" "[]" "[]"]
  by (auto simp: NewTemplate_def fasttemplate_New_def Reset_def Let_def
      split: if_splits sum.splits prod.splits)

lemma NewTemplate_start_tag_closed:
  assumes "NewTemplate s = Return t" and "bytes_Index s ''${'' = Some n"
  shows "\<exists>m. bytes_Index (drop (n + 2) s) ''}'' = Some m"
proof -
  from assms(2) have "bytes_Count s ''${'' \<noteq> 0"
    using bytes_Count_zero_iff [of "''${''" s] by simp
  with assms have "\<exists>r. Reset_loop s s ''${'' ''}'' [] [] = Inr r"
    by (auto simp: NewTemplate_def fasttemplate_New_def Reset_def Let_def
        split: if_splits sum.splits)
  with assms(2) show ?thesis
    by (subst (asm) Reset_loop.simps) (auto simp: Let_def split: option.splits)
qed

lemma no_dollar_no_placeholder: "CHR ''$'' \<notin> set s \<Longrightarrow> \<not> has_placeholder s"
  by (auto simp: has_placeholder_def)

section \<open>Rendering\<close>

text \<open>
  C8. Whenever a text without any placeholder \<^verbatim>\<open>${...}\<close> has been made into a
  template, \<^verbatim>\<open>Template.Execute\<close> returns that text unchanged, with a nil error, for
  every request context. (A text with a start tag and no end tag after it never becomes a
  template: \<^verbatim>\<open>NewTemplate\<close> panics on it.)
\<close>

theorem Execute_no_placeholder:
  assumes "\<not> has_placeholder s" and "NewTemplate s = Return t"
  shows "Execute t c = Return (s, None)"
proof (cases "bytes_Index s ''${''")
  case None
  with assms(2) have "texts t = []" and "template_text t = s"
    by (auto simp: Reset_no_start_tag)
  then show ?thesis by (simp add: Execute_def ExecuteFunc_def)
next
  case (Some n)
  with assms(2) obtain m where m: "bytes_Index (drop (n + 2) s) ''}'' = Some m"
    using NewTemplate_start_tag_closed by blast
  from bytes_Index_decomp [OF Some] have "s = take n s @ ''${'' @ drop (n + 2) s" by simp
  moreover from bytes_Index_decomp [OF m]
  have "drop (n + 2) s = take m (drop (n + 2) s) @ ''}'' @ drop (m + 1) (drop (n + 2) s)" by simp
  ultimately have "s = take n s @ ''${'' @ take m (drop (n + 2) s) @ ''}'' @ drop (m + 1) (drop (n + 2) s)"
    by metis
  then have "has_placeholder s" unfolding has_placeholder_def by blast
  with assms(1) show ?thesis by simp
qed

theorem Execute_no_placeholder_witness:
  "\<not> has_placeholder ''/index.html''
   \<and> NewTemplate ''/index.html'' =
       Return \<lparr>template_text = ''/index.html'', startTag = ''${'', endTag = ''}'', texts = [], tags = []\<rparr>
   \<and> Execute \<lparr>template_text = ''/index.html'', startTag = ''${'', endTag = ''}'', texts = [], tags = []\<rparr> ctx0
       = Return (''/index.html'', None)"
proof -
  have a: "\<not> has_placeholder ''/index.html''"
    by (rule no_dollar_no_placeholder) simp
  have b: "NewTemplate ''/index.html'' =
       Return \<lparr>template_text = ''/index.html'', startTag = ''${'', endTag = ''}'', texts = [], tags = []\<rparr>"
    by (simp add: NewTemplate_def fasttemplate_New_def Reset_def bytes_Count.simps)
  from a b Execute_no_placeholder [OF a b, of ctx0] show ?thesis by simp
qed

text \<open>
  C10. For every template that \<^verbatim>\<open>NewTemplate\<close> builds and every request context,
  \<^verbatim>\<open>Template.Execute\<close> returns, and the error it returns is nil.
\<close>

theorem Execute_error_nil:
  assumes "NewTemplate s = Return t"
  shows "\<exists>out. Execute t c = Return (out, None)"
proof (cases "texts t = []")
  case True
  then show ?thesis by (simp add: Execute_def ExecuteFunc_def)
next
  case False
  with NewTemplate_lengths [OF assms] have "length (texts t) = Suc (length (tags t))" by simp
  then have "\<exists>out. ExecuteFunc_loop (\<lambda>tag buf. (mapTag buf c tag, None)) (texts t) (tags t) [] = Return (out, None)"
    by (rule ExecuteFunc_loop_no_error) simp
  with False show ?thesis by (simp add: Execute_def ExecuteFunc_def)
qed

theorem Execute_error_nil_witness:
  "NewTemplate ''${scheme}://${header:Host}${uri}'' =
     Return \<lparr>template_text = ''${scheme}://${header:Host}${uri}'', startTag = ''${'', endTag = ''}'',
             texts = [[], ''://'', [], []], tags = [''scheme'', ''header:Host'', ''uri'']\<rparr>
   \<and> (\<exists>out. Execute \<lparr>template_text = ''${scheme}://${header:Host}${uri}'', startTag = ''${'',
             endTag = ''}'', texts = [[], ''://'', [], []],
             tags = [''scheme'', ''header:Host'', ''uri'']\<rparr> ctx0 = Return (out, None))"
proof -
  have b: "NewTemplate ''${scheme}://${header:Host}${uri}'' =
     Return \<lparr>template_text = ''${scheme}://${header:Host}${uri}'', startTag = ''${'', endTag = ''}'',
             texts = [[], ''://'', [], []], tags = [''scheme'', ''header:Host'', ''uri'']\<rparr>"
    by (simp add: NewTemplate_def fasttemplate_New_def Reset_def bytes_Count.simps Reset_loop.simps)
  from b Execute_error_nil [OF b, of ctx0] show ?thesis by simp
qed

section \<open>Certificate selection\<close>

lemma hashChain_success:
  "hashChain lib ders m = (m', None)
    \<Longrightarrow> m' = m \<union> {h. \<exists>der \<in> set ders. keyHash lib der = Some h}
        \<and> (\<forall>der \<in> set ders. keyHash lib der \<noteq> None)"
proof (induction ders arbitrary: m)
  case Nil
  then show ?case by simp
next
  case (Cons der ders)
  from Cons.prems obtain k pk where
    k: "ParseCertificate lib der = Inr k" and pk: "MarshalPKIXPublicKey lib k = Inr pk"
    and rest: "hashChain lib ders (insert (EncodeToString lib (Sum256 lib pk)) m) = (m', None)"
    by (auto split: sum.splits)
  from k pk have kh: "keyHash lib der = Some (EncodeToString lib (Sum256 lib pk))"
    by (simp add: keyHash_def)
  from Cons.IH [OF rest] kh show ?case by auto
qed

lemma hashChain_all_keys:
  "\<forall>der \<in> set ders. keyHash lib der \<noteq> None
    \<Longrightarrow> hashChain lib ders m = (m \<union> {h. \<exists>der \<in> set ders. keyHash lib der = Some h}, None)"
proof (induction ders arbitrary: m)
  case Nil
  then show ?case by simp
next
  case (Cons der ders)
  from Cons.prems obtain h where h: "keyHash lib der = Some h" by auto
  then obtain k pk where
    k: "ParseCertificate lib der = Inr k" and pk: "MarshalPKIXPublicKey lib k = Inr pk"
    and hh: "h = EncodeToString lib (Sum256 lib pk)"
    by (auto simp: keyHash_def split: sum.splits)
  from Cons.prems have "\<forall>der \<in> set ders. keyHash lib der \<noteq> None" by simp
  from Cons.IH [OF this, of "insert h m"] k pk hh h show ?case by auto
qed

lemma GetCertificate_auto_success:
  assumes "NameToCertificate cfg serverName = None" and "Auto cfg" and "KeyPinning cfg"
    and "GetCertificate cfg lib mgr serverName st = ((Some cert, None), st')"
  shows "\<exists>acme' m'. mgr serverName (acme st) = (Inr cert, acme')
           \<and> hashChain lib (Certificate cert) (case pins st serverName of None \<Rightarrow> {} | Some m \<Rightarrow> m) = (m', None)
           \<and> st' = st\<lparr>acme := acme', pins := (pins st)(serverName \<mapsto> m')\<rparr>"
  using assms
  by (auto simp: GetCertificate_def split: prod.splits sum.splits option.splits)

text \<open>
  C4. When the server name has a manually configured certificate in
  \<^verbatim>\<open>NameToCertificate\<close>, the closure returns that certificate with a nil error, whether
  or not automatic provisioning is enabled, and leaves the whole state as it was: the
  state of the ACME manager too, so the manager has not been called.
\<close>

theorem GetCertificate_manual_first:
  assumes "NameToCertificate cfg serverName = Some cert"
  shows "GetCertificate cfg lib mgr serverName st = ((Some cert, None), st)"
  using assms by (simp add: GetCertificate_def)

theorem GetCertificate_manual_first_witness:
  "NameToCertificate cfgManual ''example.com'' = Some manualCert \<and> Auto cfgManual
   \<and> GetCertificate cfgManual lib0 mgr0 ''example.com'' st0 = ((Some manualCert, None), st0)"
proof -
  have a: "NameToCertificate cfgManual ''example.com'' = Some manualCert"
    by (simp add: cfgManual_def)
  from a GetCertificate_manual_first [OF a, of lib0 mgr0 st0] show ?thesis
    by (simp add: cfgManual_def)
qed

text \<open>
  C2, as the code has it. For a server name with no manual certificate: with automatic
  provisioning disabled the closure returns a nil certificate and a nil error and
  changes nothing, whatever the manager would answer for the name; with automatic
  provisioning enabled, whenever the manager refuses the name the closure returns the
  manager's error and no certificate.
\<close>

theorem GetCertificate_no_manual:
  assumes "NameToCertificate cfg serverName = None"
  shows "GetCertificate (cfg\<lparr>Auto := False\<rparr>) lib mgr serverName st = ((None, None), st)
       \<and> (\<forall>err. fst (mgr serverName (acme st)) = Inl err
              \<longrightarrow> fst (GetCertificate (cfg\<lparr>Auto := True\<rparr>) lib mgr serverName st) = (None, Some err))"
  using assms by (auto simp: GetCertificate_def split: prod.splits)

theorem GetCertificate_no_manual_witness:
  "NameToCertificate cfgAuto ''example.com'' = None
   \<and> fst (mgr0 ''example.com'' (acme st0)) = Inr acmeCert
   \<and> GetCertificate (cfgAuto\<lparr>Auto := False\<rparr>) lib0 mgr0 ''example.com'' st0 = ((None, None), st0)
   \<and> NameToCertificate cfgAuto ''other.test'' = None
   \<and> fst (mgr0 ''other.test'' (acme st0)) = Inl (ExternalError ''acme/autocert: host not configured'')
   \<and> GetCertificate (cfgAuto\<lparr>Auto := False\<rparr>) lib0 mgr0 ''other.test'' st0 = ((None, None), st0)
   \<and> fst (GetCertificate (cfgAuto\<lparr>Auto := True\<rparr>) lib0 mgr0 ''other.test'' st0)
       = (None, Some (ExternalError ''acme/autocert: host not configured''))"
proof -
  have a: "NameToCertificate cfgAuto ''example.com'' = None"
    and b: "NameToCertificate cfgAuto ''other.test'' = None"
    by (simp_all add: cfgAuto_def)
  have c: "fst (mgr0 ''example.com'' (acme st0)) = Inr acmeCert"
    and d: "fst (mgr0 ''other.test'' (acme st0)) = Inl (ExternalError ''acme/autocert: host not configured'')"
    by (simp_all add: mgr0_def)
  from GetCertificate_no_manual [OF a, of lib0 mgr0 st0]
  have e: "GetCertificate (cfgAuto\<lparr>Auto := False\<rparr>) lib0 mgr0 ''example.com'' st0 = ((None, None), st0)"
    by blast
  from GetCertificate_no_manual [OF b, of lib0 mgr0 st0] d
  have f: "GetCertificate (cfgAuto\<lparr>Auto := False\<rparr>) lib0 mgr0 ''other.test'' st0 = ((None, None), st0)"
    and g: "fst (GetCertificate (cfgAuto\<lparr>Auto := True\<rparr>) lib0 mgr0 ''other.test'' st0)
       = (None, Some (ExternalError ''acme/autocert: host not configured''))"
    by blast+
  from a b c d e f g show ?thesis by simp
qed

text \<open>
  C2, as the claim states it, fails: with no manual certificate and automatic
  provisioning disabled the closure returns neither a certificate nor an error.
\<close>

theorem GetCertificate_nil_nil:
  "fst (GetCertificate \<lparr>NameToCertificate = Map.empty, Auto = False, KeyPinning = False\<rparr>
          lib0 mgr0 ''example.com'' st0) = (None, None)"
  by (simp add: GetCertificate_def)

text \<open>
  C5. After a resolution that succeeds on the automatic branch with key pinning enabled,
  the host has a pin set, and for each certificate of the served chain the key can be
  extracted and its hash is in that set; a later resolution for the host that serves
  keys whose hashes are in that set already (the same chain, or another chain over the
  same keys), started from any state with these pins, succeeds and leaves the pins as
  they are.
\<close>

theorem GetCertificate_records_pins:
  assumes "NameToCertificate cfg serverName = None" and "Auto cfg" and "KeyPinning cfg"
    and "GetCertificate cfg lib (mgr :: 'm manager) serverName st = ((Some cert, None), st')"
  shows "\<exists>m. pins st' serverName = Some m
           \<and> (\<forall>der \<in> set (Certificate cert). \<exists>h. keyHash lib der = Some h \<and> h \<in> m)
           \<and> (\<forall>(mgr2 :: 'm manager) st2 cert2.
                 pins st2 = pins st' \<and> fst (mgr2 serverName (acme st2)) = Inr cert2
                 \<and> (\<forall>der \<in> set (Certificate cert2). \<exists>h \<in> m. keyHash lib der = Some h)
                 \<longrightarrow> fst (GetCertificate cfg lib mgr2 serverName st2) = (Some cert2, None)
                   \<and> pins (snd (GetCertificate cfg lib mgr2 serverName st2)) = pins st')"
proof -
  from GetCertificate_auto_success [OF assms] obtain acme' m' where
    h: "hashChain lib (Certificate cert) (case pins st serverName of None \<Rightarrow> {} | Some m \<Rightarrow> m) = (m', None)"
    and st': "st' = st\<lparr>acme := acme', pins := (pins st)(serverName \<mapsto> m')\<rparr>"
    by blast
  from st' have p: "pins st' serverName = Some m'" by simp
  from hashChain_success [OF h]
  have keys: "\<forall>der \<in> set (Certificate cert). \<exists>h. keyHash lib der = Some h \<and> h \<in> m'"
    by fastforce
  have again: "fst (GetCertificate cfg lib mgr2 serverName st2) = (Some cert2, None)
      \<and> pins (snd (GetCertificate cfg lib mgr2 serverName st2)) = pins st'"
    if a: "pins st2 = pins st'" and b: "fst (mgr2 serverName (acme st2)) = Inr cert2"
      and c: "\<forall>der \<in> set (Certificate cert2). \<exists>h \<in> m'. keyHash lib der = Some h"
    for mgr2 :: "'m manager" and st2 cert2
  proof -
    from b obtain acme2 where m2: "mgr2 serverName (acme st2) = (Inr cert2, acme2)"
      by (cases "mgr2 serverName (acme st2)") simp
    from a p have p2: "pins st2 serverName = Some m'" by simp
    from c have "\<forall>der \<in> set (Certificate cert2). keyHash lib der \<noteq> None" by auto
    from hashChain_all_keys [OF this, of m']
    have "hashChain lib (Certificate cert2) m'
        = (m' \<union> {h. \<exists>der \<in> set (Certificate cert2). keyHash lib der = Some h}, None)" .
    moreover from c have "m' \<union> {h. \<exists>der \<in> set (Certificate cert2). keyHash lib der = Some h} = m'"
      by fastforce
    ultimately have "hashChain lib (Certificate cert2) m' = (m', None)" by simp
    with assms(1-3) m2 p2 a p show ?thesis
      by (auto simp: GetCertificate_def)
  qed
  from p keys again show ?thesis by blast
qed

theorem GetCertificate_records_pins_witness:
  "NameToCertificate cfgAuto ''example.com'' = None \<and> Auto cfgAuto \<and> KeyPinning cfgAuto
   \<and> GetCertificate cfgAuto lib0 mgr0 ''example.com'' st0 = ((Some acmeCert, None), st1)
   \<and> pins st1 ''example.com'' = Some {''#leaf'', ''#intermediate''}
   \<and> keyHash lib0 ''leaf'' = Some ''#leaf''
   \<and> keyHash lib0 ''intermediate'' = Some ''#intermediate''
   \<and> fst (mgr0 ''example.com'' (acme st1)) = Inr acmeCert
   \<and> fst (GetCertificate cfgAuto lib0 mgr0 ''example.com'' st1) = (Some acmeCert, None)
   \<and> pins (snd (GetCertificate cfgAuto lib0 mgr0 ''example.com'' st1)) = pins st1"
proof -
  have a: "NameToCertificate cfgAuto ''example.com'' = None" and b: "Auto cfgAuto"
    and c: "KeyPinning cfgAuto"
    by (simp_all add: cfgAuto_def)
  have d: "GetCertificate cfgAuto lib0 mgr0 ''example.com'' st0 = ((Some acmeCert, None), st1)"
    by (auto simp: GetCertificate_def cfgAuto_def mgr0_def st0_def st1_def acmeCert_def lib0_def)
  have e: "fst (mgr0 ''example.com'' (acme st1)) = Inr acmeCert"
    by (simp add: mgr0_def)
  have f: "pins st1 ''example.com'' = Some {''#leaf'', ''#intermediate''}"
    by (simp add: st1_def)
  have g: "keyHash lib0 ''leaf'' = Some ''#leaf''" "keyHash lib0 ''intermediate'' = Some ''#intermediate''"
    by (simp_all add: keyHash_def lib0_def)
  have k: "\<forall>der \<in> set (Certificate acmeCert). \<exists>h \<in> {''#leaf'', ''#intermediate''}. keyHash lib0 der = Some h"
    by (simp add: acmeCert_def g)
  from GetCertificate_records_pins [OF a b c d] obtain m where
    m: "pins st1 ''example.com'' = Some m"
    and again: "\<And>(mgr2 :: nat manager) st2 cert2.
        pins st2 = pins st1 \<and> fst (mgr2 ''example.com'' (acme st2)) = Inr cert2
        \<and> (\<forall>der \<in> set (Certificate cert2). \<exists>h \<in> m. keyHash lib0 der = Some h)
        \<Longrightarrow> fst (GetCertificate cfgAuto lib0 mgr2 ''example.com'' st2) = (Some cert2, None)
          \<and> pins (snd (GetCertificate cfgAuto lib0 mgr2 ''example.com'' st2)) = pins st1"
    by blast
  from m f have "m = {''#leaf'', ''#intermediate''}" by simp
  with again [of st1 mgr0 acmeCert] e k
  have "fst (GetCertificate cfgAuto lib0 mgr0 ''example.com'' st1) = (Some acmeCert, None)
      \<and> pins (snd (GetCertificate cfgAuto lib0 mgr0 ''example.com'' st1)) = pins st1"
    by simp
  with a b c d e f g show ?thesis by simp
qed

text \<open>
  C7. Resolving a manually configured certificate, resolving with automatic
  provisioning disabled, and resolving with key pinning disabled all leave the pin cache
  as it was.
\<close>

theorem GetCertificate_pins_unchanged:
  assumes "NameToCertificate cfg serverName \<noteq> None \<or> \<not> Auto cfg \<or> \<not> KeyPinning cfg"
  shows "pins (snd (GetCertificate cfg lib mgr serverName st)) = pins st"
  using assms
  by (auto simp: GetCertificate_def split: option.splits prod.splits sum.splits)


theorem GetCertificate_pins_unchanged_witness:
  "NameToCertificate cfgManual ''example.com'' = Some manualCert
   \<and> pins (snd (GetCertificate cfgManual lib0 mgr0 ''example.com'' st0)) = pins st0
   \<and> KeyPinning (cfgAuto\<lparr>KeyPinning := False\<rparr>) = False
   \<and> fst (GetCertificate (cfgAuto\<lparr>KeyPinning := False\<rparr>) lib0 mgr0 ''example.com'' st0) = (Some acmeCert, None)
   \<and> pins (snd (GetCertificate (cfgAuto\<lparr>KeyPinning := False\<rparr>) lib0 mgr0 ''example.com'' st0)) = pins st0"
proof -
  have a: "NameToCertificate cfgManual ''example.com'' = Some manualCert"
    by (simp add: cfgManual_def)
  have b: "KeyPinning (cfgAuto\<lparr>KeyPinning := False\<rparr>) = False"
    by simp
  have c: "fst (GetCertificate (cfgAuto\<lparr>KeyPinning := False\<rparr>) lib0 mgr0 ''example.com'' st0) = (Some acmeCert, None)"
    by (simp add: GetCertificate_def cfgAuto_def mgr0_def)
  from a b c
    GetCertificate_pins_unchanged [of cfgManual "''example.com''" lib0 mgr0 st0]
    GetCertificate_pins_unchanged [of "cfgAuto\<lparr>KeyPinning := False\<rparr>" "''example.com''" lib0 mgr0 st0]
  show ?thesis by simp
qed

section \<open>Decoding\<close>

text \<open>
  C3, as the code has it. \<^verbatim>\<open>Decode\<close> has no error result. When the value under
  \<^verbatim>\<open>name\<close> is absent or not a string, or the value under \<^verbatim>\<open>order\<close> is absent or
  not an \<^verbatim>\<open>int\<close>, or the lookup finds no plugin for the name, \<^verbatim>\<open>Decode\<close> panics;
  in the last case the panic carries the message \<^verbatim>\<open>plugin=<name> not found\<close>.
\<close>

theorem Decode_panics:
  assumes "case (index_map r ''name'', index_map r ''order'') of
             (IString s, IInt n) \<Rightarrow> Lookup \<lparr>name = s, order = n, Skip = ''false''\<rparr> = None
           | other \<Rightarrow> True"
  shows "\<exists>v. Decode Lookup dec r = Panic v
           \<and> (case (index_map r ''name'', index_map r ''order'') of
                 (IString s, IInt n) \<Rightarrow> v = PanicMsg (''plugin='' @ s @ '' not found'')
               | other \<Rightarrow> \<exists>msg. v = RuntimeError msg)"
  using assms
  by (cases "index_map r ''name''"; cases "index_map r ''order''")
     (simp_all add: Decode_def RawPlugin_Name_def RawPlugin_Order_def)

theorem Decode_panics_witness:
  "(case (index_map bogusPlugin ''name'', index_map bogusPlugin ''order'') of
      (IString s, IInt n) \<Rightarrow> DefaultLookup \<lparr>name = s, order = n, Skip = ''false''\<rparr> = None
    | other \<Rightarrow> True)
   \<and> Decode DefaultLookup (\<lambda>p r. Inr p) bogusPlugin = Panic (PanicMsg ''plugin=bogus not found'')"
proof -
  have n: "index_map bogusPlugin ''name'' = IString ''bogus''"
    and o: "index_map bogusPlugin ''order'' = IInt 1"
    by (simp_all add: index_map_def bogusPlugin_def)
  have a: "case (index_map bogusPlugin ''name'', index_map bogusPlugin ''order'') of
      (IString s, IInt n) \<Rightarrow> DefaultLookup \<lparr>name = s, order = n, Skip = ''false''\<rparr> = None
    | other \<Rightarrow> True"
    by (simp add: n o DefaultLookup_def)
  from a Decode_panics [OF a, of "\<lambda>p r. Inr p"] show ?thesis
    by (simp add: n o)
qed

text \<open>
  C3, as the claim states it, fails: on a record without \<^verbatim>\<open>name\<close> the call does not
  return; it panics.
\<close>

theorem Decode_missing_name_panics:
  "is_Panic (Decode DefaultLookup (\<lambda>p r. Inr p) (map_of [(''order'', IInt 1)]))"
  by (simp add: Decode_def RawPlugin_Name_def index_map_def)

section \<open>Expressions\<close>

text \<open>
  C9. The expression \<^verbatim>\<open>${method} == 'GET'\<close> evaluates to the boolean true on a request
  whose method is \<^verbatim>\<open>GET\<close> and to the boolean false on a request whose method is
  \<^verbatim>\<open>POST\<close>, each time with a nil error.
\<close>

theorem Evaluate_method_GET:
  "NewExpression (''${method} == 'GET'' @ sq) = Return methodExpr
   \<and> Evaluate methodExpr (c\<lparr>Method := ''GET''\<rparr>) = Return (Inr (GBool True))
   \<and> Evaluate methodExpr (c\<lparr>Method := ''POST''\<rparr>) = Return (Inr (GBool False))"
proof -
  have "NewExpression (''${method} == 'GET'' @ sq) = Return methodExpr"
    by (simp add: NewExpression_def fasttemplate_New_def Reset_def bytes_Count.simps
        Reset_loop.simps sq_def methodExpr_def)
  moreover have "ExecuteFunc methodExpr (quoteTag (c\<lparr>Method := m\<rparr>)) [] = Return (sq @ m @ sq @ '' == 'GET'' @ sq, None)" for m
    by (simp add: ExecuteFunc_def methodExpr_def quoteTag_def mapTag_def)
  moreover have "NewEvaluableExpression (sq @ ''GET'' @ sq @ '' == 'GET'' @ sq)
      = Inr (Compare EQ (Literal (GString ''GET'')) (Literal (GString ''GET'')))"
    by (simp add: NewEvaluableExpression_def parseTokens.simps sq_def isSpace_def isQuote_def
        isLetter_def isDigit_def isSymbolChar_def consToken_def symbolToken_def
        planLogicalOr_def planLogicalAnd_def planLevel_def)
  moreover have "NewEvaluableExpression (sq @ ''POST'' @ sq @ '' == 'GET'' @ sq)
      = Inr (Compare EQ (Literal (GString ''POST'')) (Literal (GString ''GET'')))"
    by (simp add: NewEvaluableExpression_def parseTokens.simps sq_def isSpace_def isQuote_def
        isLetter_def isDigit_def isSymbolChar_def consToken_def symbolToken_def
        planLogicalOr_def planLogicalAnd_def planLevel_def)
  ultimately show ?thesis by (simp add: Evaluate_def)
qed

text \<open>
  C1 fails on a value that holds a quote. For the expression
  \<^verbatim>\<open>${header:X-Role} == 'admin'\<close> and a request whose \<^verbatim>\<open>X-Role\<close> header is
  \<^verbatim>\<open>x' == 'x' || 'y\<close>, the text handed to the parser is
  \<^verbatim>\<open>'x' == 'x' || 'y' == 'admin'\<close>: the value has become three string literals, a
  comparator and a logical operator, and the expression is true although the header is
  not \<^verbatim>\<open>admin\<close>. A header without a quote gives the three tokens of the template.
\<close>

theorem Evaluate_quote_injection:
  "NewExpression roleExpr = Return roleTemplate
   \<and> HeaderGet ctxInject ''X-Role'' \<noteq> ''admin''
   \<and> ExecuteFunc roleTemplate (quoteTag ctxInject) [] =
        Return (sq @ ''x' == 'x' || 'y' == 'admin'' @ sq, None)
   \<and> parseTokens (sq @ ''x' == 'x' || 'y' == 'admin'' @ sq) =
        Inr [STRING ''x'', COMPARATOR EQ, STRING ''x'', LOGICALOP OR,
             STRING ''y'', COMPARATOR EQ, STRING ''admin'']
   \<and> Evaluate roleTemplate ctxInject = Return (Inr (GBool True))
   \<and> ExecuteFunc roleTemplate (quoteTag ctxGuest) [] = Return (sq @ ''guest' == 'admin'' @ sq, None)
   \<and> parseTokens (sq @ ''guest' == 'admin'' @ sq) =
        Inr [STRING ''guest'', COMPARATOR EQ, STRING ''admin'']
   \<and> Evaluate roleTemplate ctxGuest = Return (Inr (GBool False))"
proof -
  define bad where "bad = sq @ ''x' == 'x' || 'y' == 'admin'' @ sq"
  define good where "good = sq @ ''guest' == 'admin'' @ sq"
  have new: "NewExpression roleExpr = Return roleTemplate"
    by (simp add: NewExpression_def fasttemplate_New_def Reset_def bytes_Count.simps
        Reset_loop.simps sq_def roleExpr_def roleTemplate_def)
  have hdr: "HeaderGet ctxInject ''X-Role'' \<noteq> ''admin''"
    by (simp add: ctxInject_def)
  have ex1: "ExecuteFunc roleTemplate (quoteTag ctxInject) [] = Return (bad, None)"
    by (simp add: bad_def ExecuteFunc_def roleTemplate_def quoteTag_def mapTag_def ctxInject_def sq_def)
  have ex2: "ExecuteFunc roleTemplate (quoteTag ctxGuest) [] = Return (good, None)"
    by (simp add: good_def ExecuteFunc_def roleTemplate_def quoteTag_def mapTag_def ctxGuest_def sq_def)
  have tk1: "parseTokens bad =
        Inr [STRING ''x'', COMPARATOR EQ, STRING ''x'', LOGICALOP OR,
             STRING ''y'', COMPARATOR EQ, STRING ''admin'']"
    by (simp add: bad_def parseTokens.simps sq_def isSpace_def isQuote_def isLetter_def isDigit_def
        isSymbolChar_def consToken_def symbolToken_def)
  have tk2: "parseTokens good = Inr [STRING ''guest'', COMPARATOR EQ, STRING ''admin'']"
    by (simp add: good_def parseTokens.simps sq_def isSpace_def isQuote_def isLetter_def isDigit_def
        isSymbolChar_def consToken_def symbolToken_def)
  have ev1: "Evaluate roleTemplate ctxInject = Return (Inr (GBool True))"
    by (simp add: Evaluate_def ex1 NewEvaluableExpression_def tk1
        planLogicalOr_def planLogicalAnd_def planLevel_def)
  have ev2: "Evaluate roleTemplate ctxGuest = Return (Inr (GBool False))"
    by (simp add: Evaluate_def ex2 NewEvaluableExpression_def tk2
        planLogicalOr_def planLogicalAnd_def planLevel_def)
  from new hdr ex1 tk1 ev1 ex2 tk2 ev2 show ?thesis
    unfolding bad_def good_def by simp
qed

section \<open>Concurrent handshakes\<close>

text \<open>
  C6 fails on the code. The first step of the pinning block reads the pin cache while no
  handshake holds the mutex; only the assignment at the end is between \<^verbatim>\<open>Lock\<close> and
  \<^verbatim>\<open>Unlock\<close>. Two handshakes for one host without an entry, serving chains with the
  hashes \<^verbatim>\<open>h1\<close> and \<^verbatim>\<open>h2\<close>, can both read before either stores: when both have
  ended, the cache holds \<^verbatim>\<open>h2\<close> alone, and the update of the first is lost.
\<close>

theorem handshakes_lose_update:
  "accessesPins (at (newHandshake ''example.com'' [''h1'']))
   \<and> mutex newPinning = None
   \<and> stepHandshake 0 newPinning (newHandshake ''example.com'' [''h1'']) \<noteq> None
   \<and> map at (snd (run [0, 1, 0, 1, 0, 1, 0, 0, 0, 1, 1, 1]
          (newPinning, [newHandshake ''example.com'' [''h1''], newHandshake ''example.com'' [''h2'']])))
        = [Done, Done]
   \<and> cachedPins (fst (run [0, 1, 0, 1, 0, 1, 0, 0, 0, 1, 1, 1]
          (newPinning, [newHandshake ''example.com'' [''h1''], newHandshake ''example.com'' [''h2'']])))
          ''example.com'' = {''h2''}
   \<and> cachedPins (fst (run [0, 0, 0, 0, 0, 0, 1, 1, 1, 1, 1, 1]
          (newPinning, [newHandshake ''example.com'' [''h1''], newHandshake ''example.com'' [''h2'']])))
          ''example.com'' = {''h1'', ''h2''}"
  by (simp add: stepHandshake_def newHandshake_def newPinning_def cachedPins_def insert_commute)

end
